theory Spec2Isabelle
  imports Complex_Main "HOL-Library.AList"
begin

section \<open>JavaScript values, strings and numbers\<close>

text \<open>
  Strings are lists of 8-bit characters. The case mapping covers the ASCII letters, and a
  character outside ASCII is left as it is.
\<close>

datatype js_error = TypeError string | Error string

datatype jsval = JUndefined | JNull | JBoolean bool | JNumber int | JString string

definition lower_char :: "char \<Rightarrow> char" where
  "lower_char c =
     (case map_of (zip ''ABCDEFGHIJKLMNOPQRSTUVWXYZ'' ''abcdefghijklmnopqrstuvwxyz'') c of
        Some d \<Rightarrow> d
      | None \<Rightarrow> c)"

definition toLowerCase :: "string \<Rightarrow> string" where
  "toLowerCase s = map lower_char s"

fun startsWith :: "string \<Rightarrow> string \<Rightarrow> bool" where
  "startsWith s [] = True"
| "startsWith [] (p # ps) = False"
| "startsWith (c # cs) (p # ps) = (c = p \<and> startsWith cs ps)"

fun str_includes :: "string \<Rightarrow> string \<Rightarrow> bool" where
  "str_includes [] p = (p = [])"
| "str_includes (c # cs) p = (startsWith (c # cs) p \<or> str_includes cs p)"

text \<open>\<open>xs.slice(0, e)\<close>: a negative end counts from the end of the array.\<close>

definition slice0 :: "'a list \<Rightarrow> int \<Rightarrow> 'a list" where
  "slice0 xs e =
     (let n = int (length xs);
          k = (if e < 0 then max (n + e) 0 else min e n)
      in take (nat k) xs)"

text \<open>
  \<open>Array.prototype.sort\<close> with a comparator is a stable sort: an element goes before the
  first element it does not compare greater than.
\<close>

fun insert_by :: "('a \<Rightarrow> 'a \<Rightarrow> int) \<Rightarrow> 'a \<Rightarrow> 'a list \<Rightarrow> 'a list" where
  "insert_by cmp x [] = [x]"
| "insert_by cmp x (y # ys) =
     (if cmp x y \<le> 0 then x # y # ys else y # insert_by cmp x ys)"

definition sort_by :: "('a \<Rightarrow> 'a \<Rightarrow> int) \<Rightarrow> 'a list \<Rightarrow> 'a list" where
  "sort_by cmp xs = foldr (insert_by cmp) xs []"

section \<open>ToolCache (src/core/tool-cache.ts)\<close>

text \<open>
  Times are milliseconds since the epoch, as integers. The \<open>Map\<close> of the cache is an association list
  in insertion order: \<open>Map.set\<close> on a present key replaces the value in place, on an absent
  key it appends.
\<close>

record CachedTool =
  tool_id :: string
  name :: string
  description :: string
  author :: string
  repo :: string
  lastSeen :: int
  capabilities :: "string list"
  version :: string
  tags :: "string list"
  homepage :: "string option"
  inputSchema :: "string option"
  outputSchema :: "string option"

record ToolSearchResult =
  tools_res :: "CachedTool list"
  total :: nat
  query :: jsval

record ToolCache =
  tools :: "(string \<times> CachedTool) list"
  lastScan :: "int option"
  scanInterval :: int

definition new_ToolCache :: ToolCache where
  "new_ToolCache = \<lparr>tools = [], lastScan = None, scanInterval = 1000 * 60 * 60\<rparr>"

definition addTool :: "ToolCache \<Rightarrow> CachedTool \<Rightarrow> int \<Rightarrow> ToolCache" where
  "addTool c tool now =
     c\<lparr>tools := AList.update (tool_id tool) (tool\<lparr>lastSeen := now\<rparr>) (tools c)\<rparr>"

definition getTool :: "ToolCache \<Rightarrow> string \<Rightarrow> CachedTool option" where
  "getTool c i = map_of (tools c) i"

definition matchesName :: "string \<Rightarrow> CachedTool \<Rightarrow> bool" where
  "matchesName lowerQuery tool = str_includes (toLowerCase (name tool)) lowerQuery"

definition matchesDescription :: "string \<Rightarrow> CachedTool \<Rightarrow> bool" where
  "matchesDescription lowerQuery tool = str_includes (toLowerCase (description tool)) lowerQuery"

definition matchesTags :: "string \<Rightarrow> CachedTool \<Rightarrow> bool" where
  "matchesTags lowerQuery tool =
     list_ex (\<lambda>tag. str_includes (toLowerCase tag) lowerQuery) (tags tool)"

definition matchesId :: "string \<Rightarrow> CachedTool \<Rightarrow> bool" where
  "matchesId lowerQuery tool = str_includes (toLowerCase (tool_id tool)) lowerQuery"

definition relevance :: "string \<Rightarrow> CachedTool \<Rightarrow> int" where
  "relevance lowerQuery a =
     (if toLowerCase (name a) = lowerQuery then 3 else 0)
     + (if matchesDescription lowerQuery a then 2 else 0)
     + (if matchesTags lowerQuery a then 1 else 0)"

definition search_results :: "ToolCache \<Rightarrow> string \<Rightarrow> CachedTool list" where
  "search_results c lowerQuery =
     filter (\<lambda>tool. matchesName lowerQuery tool \<or> matchesDescription lowerQuery tool
                    \<or> matchesTags lowerQuery tool \<or> matchesId lowerQuery tool)
            (map snd (tools c))"

definition searchTools :: "ToolCache \<Rightarrow> jsval \<Rightarrow> int \<Rightarrow> js_error + ToolSearchResult" where
  "searchTools c q limit =
     (case q of
        JString s \<Rightarrow>
          (let lowerQuery = toLowerCase s;
               results = sort_by (\<lambda>a b. relevance lowerQuery b - relevance lowerQuery a)
                           (search_results c lowerQuery)
           in Inr \<lparr>tools_res = slice0 results limit, total = length results, query = q\<rparr>)
      | JUndefined \<Rightarrow> Inl (TypeError ''Cannot read properties of undefined'')
      | JNull \<Rightarrow> Inl (TypeError ''Cannot read properties of null'')
      | _ \<Rightarrow> Inl (TypeError ''query.toLowerCase is not a function''))"

definition removeTool :: "ToolCache \<Rightarrow> string \<Rightarrow> bool \<times> ToolCache" where
  "removeTool c i = (i \<in> fst ` set (tools c), c\<lparr>tools := AList.delete i (tools c)\<rparr>)"

definition clear :: "ToolCache \<Rightarrow> ToolCache" where
  "clear c = c\<lparr>tools := [], lastScan := None\<rparr>"

definition updateLastScan :: "ToolCache \<Rightarrow> int \<Rightarrow> ToolCache" where
  "updateLastScan c now = c\<lparr>lastScan := Some now\<rparr>"

definition setScanInterval :: "ToolCache \<Rightarrow> int \<Rightarrow> ToolCache" where
  "setScanInterval c intervalMs = c\<lparr>scanInterval := intervalMs\<rparr>"

record CacheExport =
  tools_exp :: "CachedTool list"
  lastScan_exp :: "int option"

definition export_cache :: "ToolCache \<Rightarrow> CacheExport" where
  "export_cache c = \<lparr>tools_exp = map snd (tools c), lastScan_exp = lastScan c\<rparr>"

definition import_cache :: "ToolCache \<Rightarrow> CacheExport \<Rightarrow> ToolCache" where
  "import_cache c d =
     c\<lparr>tools := foldl (\<lambda>m tool. AList.update (tool_id tool) tool m) [] (tools_exp d),
       lastScan := lastScan_exp d\<rparr>"


section \<open>Regular expressions and string helpers\<close>

text \<open>
  The regular expressions of the source use literals, character classes under \<open>+\<close> and
  \<open>+?\<close>, alternatives, one optional group, one capturing group and \<open>$\<close>. A matcher
  returns the ways a pattern can match at the start of the input, in the order in which a
  backtracking engine tries them: each is the input left over and the groups captured. The
  flag \<open>ci\<close> is the flag \<open>i\<close> of the pattern.
\<close>

datatype regex =
    Lit string
  | Plus "char \<Rightarrow> bool"
  | PlusLazy "char \<Rightarrow> bool"
  | Seq regex regex
  | Alt regex regex
  | Opt regex
  | Group regex
  | EndOfInput

fun greedy_rests :: "(char \<Rightarrow> bool) \<Rightarrow> string \<Rightarrow> string list" where
  "greedy_rests C [] = []"
| "greedy_rests C (c # cs) = (if C c then greedy_rests C cs @ [cs] else [])"

fun lazy_rests :: "(char \<Rightarrow> bool) \<Rightarrow> string \<Rightarrow> string list" where
  "lazy_rests C [] = []"
| "lazy_rests C (c # cs) = (if C c then cs # lazy_rests C cs else [])"

definition fold_case :: "bool \<Rightarrow> string \<Rightarrow> string" where
  "fold_case ci s = (if ci then toLowerCase s else s)"

fun run :: "bool \<Rightarrow> regex \<Rightarrow> string \<times> string list \<Rightarrow> (string \<times> string list) list" where
  "run ci (Lit s) (inp, caps) =
     (if startsWith (fold_case ci inp) (fold_case ci s) then [(drop (length s) inp, caps)] else [])"
| "run ci (Plus C) (inp, caps) = map (\<lambda>rest. (rest, caps)) (greedy_rests C inp)"
| "run ci (PlusLazy C) (inp, caps) = map (\<lambda>rest. (rest, caps)) (lazy_rests C inp)"
| "run ci (Seq a b) st = concat (map (run ci b) (run ci a st))"
| "run ci (Alt a b) st = run ci a st @ run ci b st"
| "run ci (Opt a) st = run ci a st @ [st]"
| "run ci (Group a) (inp, caps) =
     map (\<lambda>(rest, caps'). (rest, caps' @ [take (length inp - length rest) inp]))
         (run ci a (inp, caps))"
| "run ci EndOfInput (inp, caps) = (if inp = [] then [(inp, caps)] else [])"

text \<open>
  \<open>exec\<close> is the search for the leftmost match: the index of the match, the matched text
  and the captured groups.
\<close>

record regex_match =
  index :: nat
  matched :: string
  groups :: "string list"

fun exec_from :: "bool \<Rightarrow> regex \<Rightarrow> nat \<Rightarrow> string \<Rightarrow> regex_match option" where
  "exec_from ci r i [] =
     (case run ci r ([], []) of
        [] \<Rightarrow> None
      | (rest, caps) # _ \<Rightarrow> Some \<lparr>index = i, matched = [], groups = caps\<rparr>)"
| "exec_from ci r i (c # cs) =
     (case run ci r (c # cs, []) of
        [] \<Rightarrow> exec_from ci r (Suc i) cs
      | (rest, caps) # _ \<Rightarrow>
          Some \<lparr>index = i, matched = take (length (c # cs) - length rest) (c # cs), groups = caps\<rparr>)"

definition str_match :: "string \<Rightarrow> bool \<Rightarrow> regex \<Rightarrow> regex_match option" where
  "str_match s ci r = exec_from ci r 0 s"

text \<open>\<open>s.match(r)\<close> for a pattern with the flag \<open>g\<close>: the matched texts, left to right.\<close>

function match_all :: "bool \<Rightarrow> regex \<Rightarrow> string \<Rightarrow> string list" where
  "match_all ci r inp =
     (case exec_from ci r 0 inp of
        None \<Rightarrow> []
      | Some m \<Rightarrow>
          matched m #
          (if inp = [] then []
           else match_all ci r (drop (index m + max 1 (length (matched m))) inp)))"
  by pat_completeness auto
termination
  by (relation "measure (\<lambda>(ci, r, inp). length inp)") (auto simp: max_def intro!: diff_less)

declare match_all.simps [simp del]

text \<open>\<open>s.replace(r, '')\<close> for a pattern without the flag \<open>g\<close>: the first match is removed.\<close>

definition replace_regex_empty :: "string \<Rightarrow> bool \<Rightarrow> regex \<Rightarrow> string" where
  "replace_regex_empty s ci r =
     (case str_match s ci r of
        None \<Rightarrow> s
      | Some m \<Rightarrow> take (index m) s @ drop (index m + length (matched m)) s)"

text \<open>\<open>s.replace(p, '')\<close> for a string pattern: the first occurrence is removed.\<close>

fun replace_str_empty :: "string \<Rightarrow> string \<Rightarrow> string" where
  "replace_str_empty [] p = []"
| "replace_str_empty (c # cs) p =
     (if startsWith (c # cs) p then drop (length p) (c # cs) else c # replace_str_empty cs p)"

text \<open>
  The classes \<open>\s\<close>, \<open>[a-zA-Z0-9_-]\<close> and \<open>.\<close> on ASCII: white space is the
  space and the control characters from tab to carriage return, and the dot takes every
  character but the line ends. \<open>trim\<close> removes white space at both ends.
\<close>

definition is_space :: "char \<Rightarrow> bool" where
  "is_space c = (c \<in> set [CHR '' '', CHR 0x09, CHR 0x0A, CHR 0x0B, CHR 0x0C, CHR 0x0D])"

definition is_token :: "char \<Rightarrow> bool" where
  "is_token c =
     (c \<in> set ''abcdefghijklmnopqrstuvwxyzABCDEFGHIJKLMNOPQRSTUVWXYZ0123456789_-'')"

definition is_dot :: "char \<Rightarrow> bool" where
  "is_dot c = (c \<noteq> CHR 0x0A \<and> c \<noteq> CHR 0x0D)"

definition trim :: "string \<Rightarrow> string" where
  "trim s = rev (dropWhile is_space (rev (dropWhile is_space s)))"

fun split_on :: "char \<Rightarrow> string \<Rightarrow> string list" where
  "split_on d [] = [[]]"
| "split_on d (c # cs) =
     (if c = d then [] # split_on d cs
      else (case split_on d cs of w # ws \<Rightarrow> (c # w) # ws | [] \<Rightarrow> [[c]]))"

text \<open>A \<open>Set\<close> iterates in insertion order; adding a member again changes nothing.\<close>

definition set_add :: "'a list \<Rightarrow> 'a \<Rightarrow> 'a list" where
  "set_add s x = (if x \<in> set s then s else s @ [x])"

definition new_Set :: "'a list \<Rightarrow> 'a list" where
  "new_Set xs = foldl set_add [] xs"

section \<open>Numbers\<close>

text \<open>
  A JavaScript number is an IEEE 754 double. A finite double is a rational, and \<open>dbl x\<close>
  is the double nearest to the rational \<open>x\<close>, a tie going to the even mantissa. The
  exponent is not bounded in this model: the confidences stay far from the overflow and
  from the subnormal range. A decimal literal of the source denotes the double nearest to
  it, and \<open>+\<close> rounds the exact sum.
\<close>

function bitlen :: "int \<Rightarrow> int" where
  "bitlen n = (if n \<le> 0 then 0 else 1 + bitlen (n div 2))"
  by pat_completeness auto
termination
  by (relation "measure nat") auto

declare bitlen.simps [simp del]

definition ilog2 :: "rat \<Rightarrow> int" where
  "ilog2 x =
     (let (p, q) = quotient_of x;
          k = bitlen p - bitlen q
      in if 2 powi k \<le> x then k else k - 1)"

definition dbl :: "rat \<Rightarrow> rat" where
  "dbl x =
     (if x = 0 then 0
      else
        let a = \<bar>x\<bar>;
            u = 2 powi (ilog2 a - 52);
            m = a / u;
            f = \<lfloor>m\<rfloor>;
            r = m - of_int f;
            n = (if r < 1 / 2 then f else if 1 / 2 < r then f + 1
                 else if even f then f else f + 1)
        in sgn x * of_int n * u)"

definition js_add :: "rat \<Rightarrow> rat \<Rightarrow> rat" where
  "js_add a b = dbl (a + b)"

section \<open>AIOrchestrator (src/core/ai-orchestrator.ts)\<close>

datatype intent_type = Install | Uninstall | Execute | Search | List | Help | Unknown

text \<open>
  The parameters of an intent are an object whose properties keep their insertion order;
  the intents of the pattern rules carry string values only.
\<close>

record Intent =
  type :: intent_type
  confidence :: rat
  toolId :: "string option"
  parameters :: "(string \<times> string) list"
  originalText :: string

record MediaItem =
  media_type :: string
  media_url :: string
  media_title :: string
  media_description :: string

record ExecutionResult =
  success :: bool
  content :: string
  media :: "MediaItem list option"
  error :: "string option"

record AIOrchestrator =
  installedTools :: "string list"
  toolCache :: ToolCache

definition setInstalledTools :: "AIOrchestrator \<Rightarrow> string list \<Rightarrow> AIOrchestrator" where
  "setInstalledTools orch toolIds = orch\<lparr>installedTools := new_Set toolIds\<rparr>"

definition addInstalledTool :: "AIOrchestrator \<Rightarrow> string \<Rightarrow> AIOrchestrator" where
  "addInstalledTool orch i = orch\<lparr>installedTools := set_add (installedTools orch) i\<rparr>"

definition removeInstalledTool :: "AIOrchestrator \<Rightarrow> string \<Rightarrow> AIOrchestrator" where
  "removeInstalledTool orch i = orch\<lparr>installedTools := removeAll i (installedTools orch)\<rparr>"

text \<open>The first group of a match; every pattern below has exactly one.\<close>

definition group1 :: "regex_match \<Rightarrow> string" where
  "group1 m = (case groups m of g # _ \<Rightarrow> g | [] \<Rightarrow> [])"

definition spaces :: regex where
  "spaces = Plus is_space"

text \<open>\<open>/install\s+([a-zA-Z0-9_-]+)/i\<close> and \<open>/install\s+/i\<close>\<close>

definition install_re :: regex where
  "install_re = Seq (Lit ''install'') (Seq spaces (Group (Plus is_token)))"

definition install_prefix_re :: regex where
  "install_prefix_re = Seq (Lit ''install'') spaces"

text \<open>\<open>/uninstall\s+([a-zA-Z0-9_-]+)/i\<close> and \<open>/uninstall\s+/i\<close>\<close>

definition uninstall_re :: regex where
  "uninstall_re = Seq (Lit ''uninstall'') (Seq spaces (Group (Plus is_token)))"

definition uninstall_prefix_re :: regex where
  "uninstall_prefix_re = Seq (Lit ''uninstall'') spaces"

text \<open>\<open>/(?:search|find|discover)\s+(.+)/i\<close>\<close>

definition search_re :: regex where
  "search_re =
     Seq (Alt (Lit ''search'') (Alt (Lit ''find'') (Lit ''discover'')))
         (Seq spaces (Group (Plus is_dot)))"

text \<open>The common tail \<open>(?:\s+with|\s+from|$)\<close>\<close>

definition with_from_end :: regex where
  "with_from_end =
     Alt (Seq spaces (Lit ''with'')) (Alt (Seq spaces (Lit ''from'')) EndOfInput)"

text \<open>\<open>/(?:gif|giphy)\s+(?:of\s+)?(.+?)(?:\s+with|\s+from|$)/i\<close>\<close>

definition gif_re :: regex where
  "gif_re =
     Seq (Alt (Lit ''gif'') (Lit ''giphy''))
         (Seq spaces (Seq (Opt (Seq (Lit ''of'') spaces))
            (Seq (Group (PlusLazy is_dot)) with_from_end)))"

text \<open>\<open>/"([^"]+)"/\<close>\<close>

definition quoted_re :: regex where
  "quoted_re =
     Seq (Lit [CHR 0x22]) (Seq (Group (Plus (\<lambda>c. c \<noteq> CHR 0x22))) (Lit [CHR 0x22]))"

text \<open>\<open>/(?:search|find|get)\s+(.+?)(?:\s+with|\s+from|$)/i\<close>\<close>

definition query_re :: regex where
  "query_re =
     Seq (Alt (Lit ''search'') (Alt (Lit ''find'') (Lit ''get'')))
         (Seq spaces (Seq (Group (PlusLazy is_dot)) with_from_end))"

text \<open>\<open>/(?:in|at|to|from)\s+([A-Za-z\s,]+?)(?:\s+with|\s+from|\s+to|$)/i\<close>\<close>

definition is_location_char :: "char \<Rightarrow> bool" where
  "is_location_char c =
     (c \<in> set ''abcdefghijklmnopqrstuvwxyzABCDEFGHIJKLMNOPQRSTUVWXYZ,'' \<or> is_space c)"

definition location_re :: regex where
  "location_re =
     Seq (Alt (Lit ''in'') (Alt (Lit ''at'') (Alt (Lit ''to'') (Lit ''from''))))
         (Seq spaces (Seq (Group (PlusLazy is_location_char))
            (Alt (Seq spaces (Lit ''with''))
              (Alt (Seq spaces (Lit ''from'')) (Alt (Seq spaces (Lit ''to'')) EndOfInput)))))"

text \<open>\<open>/(?:gif|image|picture|photo)\s+(?:of\s+)?(.+?)(?:\s+with|\s+from|$)/i\<close>\<close>

definition media_re :: regex where
  "media_re =
     Seq (Alt (Lit ''gif'') (Alt (Lit ''image'') (Alt (Lit ''picture'') (Lit ''photo''))))
         (Seq spaces (Seq (Opt (Seq (Lit ''of'') spaces))
            (Seq (Group (PlusLazy is_dot)) with_from_end)))"

definition isInstallIntent :: "string \<Rightarrow> bool" where
  "isInstallIntent message =
     (startsWith message ''install '' \<or> str_includes message ''add ''
      \<or> str_includes message ''get '')"

definition parseInstallIntent :: "string \<Rightarrow> Intent" where
  "parseInstallIntent message =
     (let toolName =
            (case str_match message True install_re of
               Some installMatch \<Rightarrow> group1 installMatch
             | None \<Rightarrow> trim (replace_regex_empty message True install_prefix_re))
      in \<lparr>type = Install, confidence = dbl (9 / 10), toolId = Some (''comlink.'' @ toolName),
          parameters = [(''toolName'', toolName)], originalText = message\<rparr>)"

definition isUninstallIntent :: "string \<Rightarrow> bool" where
  "isUninstallIntent message =
     (startsWith message ''uninstall '' \<or> str_includes message ''remove ''
      \<or> str_includes message ''delete '')"

definition parseUninstallIntent :: "string \<Rightarrow> Intent" where
  "parseUninstallIntent message =
     (let toolName =
            (case str_match message True uninstall_re of
               Some uninstallMatch \<Rightarrow> group1 uninstallMatch
             | None \<Rightarrow> trim (replace_regex_empty message True uninstall_prefix_re))
      in \<lparr>type = Uninstall, confidence = dbl (9 / 10), toolId = Some (''comlink.'' @ toolName),
          parameters = [(''toolName'', toolName)], originalText = message\<rparr>)"

definition isListIntent :: "string \<Rightarrow> bool" where
  "isListIntent message =
     (str_includes message ''list'' \<or> str_includes message ''show''
      \<or> (str_includes message ''what'' \<and> str_includes message ''installed''))"

definition parseListIntent :: "string \<Rightarrow> Intent" where
  "parseListIntent message =
     \<lparr>type = List, confidence = dbl (8 / 10), toolId = None, parameters = [],
      originalText = message\<rparr>"

definition isSearchIntent :: "string \<Rightarrow> bool" where
  "isSearchIntent message =
     (str_includes message ''search'' \<or> str_includes message ''find''
      \<or> str_includes message ''discover'')"

definition parseSearchIntent :: "string \<Rightarrow> Intent" where
  "parseSearchIntent message =
     (let query =
            (case str_match message True search_re of
               Some searchMatch \<Rightarrow> trim (group1 searchMatch)
             | None \<Rightarrow> [])
      in \<lparr>type = Search, confidence = dbl (8 / 10), toolId = None,
          parameters = [(''query'', query)], originalText = message\<rparr>)"

definition isHelpIntent :: "string \<Rightarrow> bool" where
  "isHelpIntent message =
     (str_includes message ''help'' \<or> str_includes message ''?''
      \<or> str_includes message ''commands'')"

definition parseHelpIntent :: "string \<Rightarrow> Intent" where
  "parseHelpIntent message =
     \<lparr>type = Help, confidence = dbl (9 / 10), toolId = None, parameters = [],
      originalText = message\<rparr>"

text \<open>
  \<open>calculateToolMatchConfidence\<close>: the four loops thread the running confidence; an empty
  name, capability, tag or description is falsy and adds nothing.
\<close>

definition calculateToolMatchConfidence :: "string \<Rightarrow> CachedTool \<Rightarrow> rat" where
  "calculateToolMatchConfidence message tool =
     (let lowerMessage = toLowerCase message;
          c0 = 0;
          c1 = (if name tool \<noteq> [] \<and> str_includes lowerMessage (toLowerCase (name tool))
                then js_add c0 (dbl (4 / 10)) else c0);
          c2 = foldl (\<lambda>confidence capability.
                  if capability \<noteq> [] \<and> str_includes lowerMessage (toLowerCase capability)
                  then js_add confidence (dbl (2 / 10)) else confidence)
                c1 (capabilities tool);
          c3 = foldl (\<lambda>confidence tag.
                  if tag \<noteq> [] \<and> str_includes lowerMessage (toLowerCase tag)
                  then js_add confidence (dbl (1 / 10)) else confidence)
                c2 (tags tool);
          c4 = (if description tool \<noteq> []
                then foldl (\<lambda>confidence word.
                        if 3 < length word \<and> str_includes lowerMessage word
                        then js_add confidence (dbl (5 / 100)) else confidence)
                      c3 (split_on (CHR '' '') (toLowerCase (description tool)))
                else c3)
      in min c4 1)"

definition extractParameters ::
  "string \<Rightarrow> CachedTool \<Rightarrow> (string \<times> string) list \<Rightarrow> (string \<times> string) list" where
  "extractParameters message tool params =
     (let p1 = (if ''search'' \<in> set (capabilities tool)
                then (case (case str_match message False quoted_re of
                              Some m \<Rightarrow> Some m
                            | None \<Rightarrow> str_match message True query_re) of
                        Some queryMatch \<Rightarrow>
                          AList.update ''query'' (trim (group1 queryMatch)) params
                      | None \<Rightarrow> params)
                else params);
          p2 = (if ''location'' \<in> set (capabilities tool)
                   \<or> ''weather'' \<in> set (tags tool) \<or> ''maps'' \<in> set (tags tool)
                then (case str_match message True location_re of
                        Some locationMatch \<Rightarrow>
                          AList.update ''location'' (trim (group1 locationMatch)) p1
                      | None \<Rightarrow> p1)
                else p1);
          p3 = (if ''media'' \<in> set (capabilities tool) \<or> ''gif'' \<in> set (tags tool)
                then (case str_match message True media_re of
                        Some mediaMatch \<Rightarrow> AList.update ''query'' (trim (group1 mediaMatch)) p2
                      | None \<Rightarrow> p2)
                else p2)
      in p3)"

text \<open>The loop of \<open>parseExecutionIntent\<close> over the installed set.\<close>

definition best_step ::
  "ToolCache \<Rightarrow> string \<Rightarrow> CachedTool option \<times> rat \<Rightarrow> string \<Rightarrow> CachedTool option \<times> rat" where
  "best_step cache message best i =
     (case getTool cache i of
        None \<Rightarrow> best
      | Some tool \<Rightarrow>
          (let confidence = calculateToolMatchConfidence message tool
           in if snd best < confidence then (Some tool, confidence) else best))"

definition parseExecutionIntent :: "AIOrchestrator \<Rightarrow> string \<Rightarrow> Intent" where
  "parseExecutionIntent orch message =
     (let lowerMessage = toLowerCase message;
          (bestMatch, bestConfidence) =
             foldl (best_step (toolCache orch) message) (None, 0) (installedTools orch)
      in case (if dbl (3 / 10) < bestConfidence then bestMatch else None) of
           Some tool \<Rightarrow>
             \<lparr>type = Execute, confidence = bestConfidence, toolId = Some (tool_id tool),
              parameters = extractParameters message tool [], originalText = message\<rparr>
         | None \<Rightarrow>
             if str_includes lowerMessage ''gif'' \<or> str_includes lowerMessage ''giphy''
             then (let query = (case str_match message True gif_re of
                                  Some gifMatch \<Rightarrow> trim (group1 gifMatch)
                                | None \<Rightarrow> ''something fun'')
                   in \<lparr>type = Execute, confidence = dbl (7 / 10), toolId = Some ''comlink.giphy'',
                       parameters = [(''query'', query)], originalText = message\<rparr>)
             else \<lparr>type = Unknown, confidence = 0, toolId = None, parameters = [],
                   originalText = message\<rparr>)"

text \<open>
  \<open>fallbackProcessMessage\<close> on a string; the empty string is falsy and takes the first
  branch.
\<close>

definition fallbackProcessMessage :: "AIOrchestrator \<Rightarrow> string \<Rightarrow> Intent" where
  "fallbackProcessMessage orch message =
     (if message = [] then
        \<lparr>type = Unknown, confidence = 0, toolId = None, parameters = [],
         originalText = ''undefined''\<rparr>
      else
        let lowerMessage = trim (toLowerCase message) in
        if isInstallIntent lowerMessage then parseInstallIntent message
        else if isUninstallIntent lowerMessage then parseUninstallIntent message
        else if isListIntent lowerMessage then parseListIntent message
        else if isSearchIntent lowerMessage then parseSearchIntent message
        else if isHelpIntent lowerMessage then parseHelpIntent message
        else
          let executionIntent = parseExecutionIntent orch message in
          if dbl (3 / 10) < confidence executionIntent then executionIntent
          else \<lparr>type = Unknown, confidence = 0, toolId = None, parameters = [],
                originalText = message\<rparr>)"

text \<open>The satellite sign that opens the replies, as its UTF-8 bytes.\<close>

definition satellite :: string where
  "satellite = [CHR 0xF0, CHR 0x9F, CHR 0x9B, CHR 0xB0, CHR 0xEF, CHR 0xB8, CHR 0x8F]"

definition executeGiphySearch :: "Intent \<Rightarrow> ExecutionResult" where
  "executeGiphySearch intent =
     (let searchQuery = (case map_of (parameters intent) ''query'' of
                           None \<Rightarrow> ''something fun''
                         | Some q \<Rightarrow> if q = [] then ''something fun'' else q)
      in \<lparr>success = True,
          content = satellite @ '' Searching for GIFs: '' @ [CHR 0x22] @ searchQuery @ [CHR 0x22],
          media = Some [\<lparr>media_type = ''gif'',
                         media_url = ''https://media.giphy.com/media/example/giphy.gif'',
                         media_title = searchQuery @ '' GIF'',
                         media_description = ''A fun '' @ searchQuery @ '' GIF from Giphy''\<rparr>],
          error = None\<rparr>)"

text \<open>
  \<open>executeTool\<close>; \<open>stringify\<close> stands for \<open>JSON.stringify\<close> on the parameters.
\<close>

definition executeTool ::
  "((string \<times> string) list \<Rightarrow> string) \<Rightarrow> AIOrchestrator \<Rightarrow> Intent \<Rightarrow> ExecutionResult" where
  "executeTool stringify orch intent =
     (if toolId intent = Some ''comlink.giphy'' then executeGiphySearch intent
      else
        case (case toolId intent of
                None \<Rightarrow> None
              | Some i \<Rightarrow> if i = [] \<or> i \<notin> set (installedTools orch) then None else Some i) of
          None \<Rightarrow>
            \<lparr>success = False,
             content = satellite @ '' Tool not installed. Try '' @ [CHR 0x22] @ ''install ''
                       @ (case toolId intent of
                            None \<Rightarrow> ''undefined''
                          | Some i \<Rightarrow> replace_str_empty i ''comlink.'')
                       @ [CHR 0x22] @ '' first.'',
             media = None, error = None\<rparr>
        | Some i \<Rightarrow>
            (case getTool (toolCache orch) i of
               None \<Rightarrow>
                 \<lparr>success = False,
                  content = satellite @ '' Tool '' @ i @ '' not found in cache.'',
                  media = None, error = None\<rparr>
             | Some tool \<Rightarrow>
                 \<lparr>success = True,
                  content = satellite @ '' Executed '' @ name tool @ '' with parameters: ''
                            @ stringify (parameters intent),
                  media = None, error = None\<rparr>))"

section \<open>BlueskyScanner (src/core/bluesky-scanner.ts)\<close>

text \<open>
  The scanner and the orchestrator hold the same \<open>ToolCache\<close> object, so the functions
  of the scanner take the cache and return it updated. A request to the feed is an
  await: its answer arrives later, as the list of posts or as a rejection with the text of
  the error. The clock is read once for one run between two awaits of the feed.
\<close>

record ScanResult =
  toolsFound :: nat
  newTools :: "CachedTool list"
  updatedTools :: "CachedTool list"
  errors :: "string list"

record Post =
  post_uri :: string
  post_text :: string
  author_did :: string

datatype 'a settled = Resolved 'a | Rejected string

record ToolInfo =
  info_description :: string
  info_capabilities :: "string list"
  info_version :: string
  info_tags :: "string list"
  info_homepage :: string

record BlueskyScanner =
  scanning :: bool
  knownRepos :: "string list"

definition new_ScanResult :: ScanResult where
  "new_ScanResult = \<lparr>toolsFound = 0, newTools = [], updatedTools = [], errors = []\<rparr>"

text \<open>\<open>/social\.catalog\.[a-zA-Z0-9_-]+/g\<close>\<close>

definition toolPattern :: regex where
  "toolPattern = Seq (Lit ''social.catalog.'') (Plus is_token)"

definition extractToolMentions :: "string \<Rightarrow> string list" where
  "extractToolMentions txt =
     (let mentions = match_all False toolPattern txt;
          installMatches = match_all True install_re txt
      in new_Set (mentions @
           map (\<lambda>m. ''social.catalog.'' @ replace_regex_empty m True install_prefix_re)
               installMatches))"

definition fetchToolLexicon :: "string \<Rightarrow> string \<Rightarrow> ToolInfo option" where
  "fetchToolLexicon toolId' authorDid =
     Some \<lparr>info_description = ''Tool: '' @ toolId',
           info_capabilities = [''search'', ''media''],
           info_version = ''1.0.0'',
           info_tags = [''demo''],
           info_homepage = ''https://bsky.app/profile/'' @ authorDid\<rparr>"

definition investigateTool ::
  "ToolCache \<Rightarrow> string \<Rightarrow> string \<Rightarrow> int \<Rightarrow> ScanResult \<Rightarrow> ToolCache \<times> ScanResult" where
  "investigateTool c toolId' authorDid now result =
     (case getTool c toolId' of
        Some existing \<Rightarrow>
          (let existing' = existing\<lparr>lastSeen := now\<rparr>
           in (c\<lparr>tools := AList.update toolId' existing' (tools c)\<rparr>,
               result\<lparr>updatedTools := updatedTools result @ [existing']\<rparr>))
      | None \<Rightarrow>
          (case fetchToolLexicon toolId' authorDid of
             Some toolInfo \<Rightarrow>
               (let cachedTool =
                      \<lparr>tool_id = toolId',
                       name = replace_str_empty toolId' ''social.catalog.'',
                       description = (if info_description toolInfo = []
                                      then ''No description available''
                                      else info_description toolInfo),
                       author = authorDid,
                       repo = authorDid @ ''/social.catalog'',
                       lastSeen = now,
                       capabilities = info_capabilities toolInfo,
                       version = (if info_version toolInfo = [] then ''1.0.0''
                                  else info_version toolInfo),
                       tags = info_tags toolInfo,
                       homepage = Some (info_homepage toolInfo),
                       inputSchema = None,
                       outputSchema = None\<rparr>
                in (c, result\<lparr>newTools := newTools result @ [cachedTool],
                              toolsFound := toolsFound result + 1\<rparr>))
           | None \<Rightarrow> (c, result)))"

definition investigate_mentions ::
  "int \<Rightarrow> ToolCache \<times> ScanResult \<Rightarrow> Post \<Rightarrow> ToolCache \<times> ScanResult" where
  "investigate_mentions now cr post =
     foldl (\<lambda>(c, result) toolId'. investigateTool c toolId' (author_did post) now result)
           cr (extractToolMentions (post_text post))"

definition scanFeedsForTools ::
  "ToolCache \<Rightarrow> Post list settled \<Rightarrow> int \<Rightarrow> ScanResult \<Rightarrow> ToolCache \<times> ScanResult" where
  "scanFeedsForTools c response now result =
     (case response of
        Resolved posts \<Rightarrow> foldl (investigate_mentions now) (c, result) posts
      | Rejected e \<Rightarrow> (c, result\<lparr>errors := errors result @ [''Feed scan failed: '' @ e]\<rparr>))"

definition scanUserProfile ::
  "ToolCache \<Rightarrow> string \<Rightarrow> Post list settled \<Rightarrow> int \<Rightarrow> ScanResult
   \<Rightarrow> ToolCache \<times> ScanResult" where
  "scanUserProfile c did response now result =
     (case response of
        Resolved feed \<Rightarrow>
          foldl (\<lambda>cr post. investigate_mentions now cr (post\<lparr>author_did := did\<rparr>))
                (c, result) feed
      | Rejected e \<Rightarrow>
          (c, result\<lparr>errors := errors result @ [''Error scanning profile '' @ did @ '': '' @ e]\<rparr>))"

definition knownDevelopers :: "string list" where
  "knownDevelopers = []"

definition scanKnownAccounts ::
  "ToolCache \<Rightarrow> (string \<Rightarrow> Post list settled) \<Rightarrow> int \<Rightarrow> ScanResult
   \<Rightarrow> ToolCache \<times> ScanResult" where
  "scanKnownAccounts c authorFeed now result =
     foldl (\<lambda>(c, result) did. scanUserProfile c did (authorFeed did) now result)
           (c, result) knownDevelopers"

text \<open>
  \<open>startBackgroundScan\<close> in two parts. \<open>scan_begin\<close> is the code before the first await:
  the guard and the flag. \<open>scan_run\<close> is the rest, run when the feed has answered: the
  two scans, the merge into the cache, and the \<open>finally\<close> that lowers the flag. A
  failure inside is caught where it occurs and recorded in \<open>errors\<close>, so nothing reaches
  the outer \<open>catch\<close>.
\<close>

definition scan_begin :: "BlueskyScanner \<Rightarrow> js_error + BlueskyScanner" where
  "scan_begin s =
     (if scanning s then Inl (Error ''Scan already in progress'')
      else Inr (s\<lparr>scanning := True\<rparr>))"

definition scan_run ::
  "BlueskyScanner \<Rightarrow> ToolCache \<Rightarrow> Post list settled \<Rightarrow> (string \<Rightarrow> Post list settled) \<Rightarrow> int
   \<Rightarrow> BlueskyScanner \<times> ToolCache \<times> ScanResult" where
  "scan_run s c response authorFeed now =
     (let (c1, r1) = scanFeedsForTools c response now new_ScanResult;
          (c2, r2) = scanKnownAccounts c1 authorFeed now r1;
          c3 = foldl (\<lambda>c tool. addTool c tool now) c2 (newTools r2);
          c4 = updateLastScan c3 now
      in (s\<lparr>scanning := False\<rparr>, c4, r2))"

definition isScanning :: "BlueskyScanner \<Rightarrow> bool" where
  "isScanning s = scanning s"

text \<open>
  The scanner among its callers. \<open>pending\<close> counts the calls of \<open>startBackgroundScan\<close>
  that have passed the guard and wait for the feed. A call is one event and the answer of
  the feed another, so that calls can fall between the two; \<open>CacheOp\<close> is any other use
  of the cache in between.
\<close>

record system =
  scanner :: BlueskyScanner
  cache :: ToolCache
  pending :: nat

datatype event =
    CallScan
  | FeedAnswers "Post list settled" "string \<Rightarrow> Post list settled" int
  | CacheOp "ToolCache \<Rightarrow> ToolCache"

datatype outcome = Thrown js_error | Started | Returned ScanResult | Done

definition fire :: "system \<Rightarrow> event \<Rightarrow> outcome \<times> system" where
  "fire \<sigma> ev =
     (case ev of
        CallScan \<Rightarrow>
          (case scan_begin (scanner \<sigma>) of
             Inl e \<Rightarrow> (Thrown e, \<sigma>)
           | Inr s \<Rightarrow> (Started, \<sigma>\<lparr>scanner := s, pending := pending \<sigma> + 1\<rparr>))
      | FeedAnswers response authorFeed now \<Rightarrow>
          (if pending \<sigma> = 0 then (Done, \<sigma>)
           else
             let (s, c, r) = scan_run (scanner \<sigma>) (cache \<sigma>) response authorFeed now
             in (Returned r, \<lparr>scanner = s, cache = c, pending = pending \<sigma> - 1\<rparr>))
      | CacheOp f \<Rightarrow> (Done, \<sigma>\<lparr>cache := f (cache \<sigma>)\<rparr>))"

definition new_system :: system where
  "new_system =
     \<lparr>scanner = \<lparr>scanning = False, knownRepos = []\<rparr>, cache = new_ToolCache, pending = 0\<rparr>"

inductive reachable_system :: "system \<Rightarrow> bool" where
  start: "reachable_system new_system"
| step: "reachable_system \<sigma> \<Longrightarrow> reachable_system (snd (fire \<sigma> ev))"

section \<open>The states a cache can reach, and the fixture of the unit tests\<close>

inductive reachable :: "ToolCache \<Rightarrow> bool" where
  new: "reachable new_ToolCache"
| addTool: "reachable c \<Longrightarrow> reachable (addTool c tool now)"
| removeTool: "reachable c \<Longrightarrow> reachable (snd (removeTool c i))"
| clear: "reachable c \<Longrightarrow> reachable (clear c)"
| updateLastScan: "reachable c \<Longrightarrow> reachable (updateLastScan c now)"
| setScanInterval: "reachable c \<Longrightarrow> reachable (setScanInterval c intervalMs)"
| import_cache: "reachable c \<Longrightarrow> reachable (import_cache c d)"
| investigateTool:
    "reachable c \<Longrightarrow> reachable (fst (investigateTool c toolId' authorDid now result))"

text \<open>The two tools of tests/unit/tool-cache.test.ts, added at the times \<open>t1\<close> and \<open>t2\<close>.\<close>

definition mock_giphy :: CachedTool where
  "mock_giphy =
     \<lparr>tool_id = ''comlink.giphy'', name = ''giphy'',
      description = ''Search and share GIFs from Giphy'',
      author = ''did:plc:test-author'', repo = ''test-repo'', lastSeen = 1704067200000,
      capabilities = [''search'', ''media''], version = ''1.0.0'',
      tags = [''gif'', ''media'', ''fun''], homepage = Some ''https://giphy.com'',
      inputSchema = None, outputSchema = None\<rparr>"

definition mock_weather :: CachedTool where
  "mock_weather =
     \<lparr>tool_id = ''comlink.weather'', name = ''weather'',
      description = ''Get weather forecasts and current conditions'',
      author = ''did:plc:test-author'', repo = ''test-repo'', lastSeen = 1704067200000,
      capabilities = [''search'', ''location''], version = ''1.0.0'',
      tags = [''weather'', ''forecast'', ''location''], homepage = Some ''https://weather.com'',
      inputSchema = None, outputSchema = None\<rparr>"

definition test_cache :: "int \<Rightarrow> int \<Rightarrow> ToolCache" where
  "test_cache t1 t2 = addTool (addTool new_ToolCache mock_giphy t1) mock_weather t2"

text \<open>
  The invariant of the reachable caches: the keys of the map are distinct and each record
  is stored under its own identifier.
\<close>

definition cache_ok :: "ToolCache \<Rightarrow> bool" where
  "cache_ok c = (distinct (map fst (tools c)) \<and> (\<forall>(k, v) \<in> set (tools c). k = tool_id v))"



text \<open>An orchestrator with nothing installed, and an execute intent for a weather tool.\<close>

definition fresh_orchestrator :: AIOrchestrator where
  "fresh_orchestrator = \<lparr>installedTools = [], toolCache = new_ToolCache\<rparr>"

definition weather_intent :: Intent where
  "weather_intent =
     \<lparr>type = Execute, confidence = dbl (8 / 10), toolId = Some ''comlink.weather'',
      parameters = [(''location'', ''Paris'')], originalText = ''weather in Paris''\<rparr>"

section \<open>The confidence of a tool match, as the specification words it\<close>






text \<open>One step of the loop of \<open>parseExecutionIntent\<close> on a tool that the cache holds.\<close>

definition best_tool ::
  "string \<Rightarrow> CachedTool option \<times> rat \<Rightarrow> CachedTool \<Rightarrow> CachedTool option \<times> rat" where
  "best_tool message best tool =
     (if snd best < calculateToolMatchConfidence message tool
      then (Some tool, calculateToolMatchConfidence message tool) else best)"


text \<open>
  The invariant of the single flight: a call waits for the feed exactly when the flag is
  up, and then it is the only one.
\<close>

definition single_flight :: "system \<Rightarrow> bool" where
  "single_flight \<sigma> = (pending \<sigma> = (if scanning (scanner \<sigma>) then 1 else 0))"

text \<open>The system after one call of \<open>startBackgroundScan\<close>, waiting for the feed.\<close>

definition scanning_system :: system where
  "scanning_system = snd (fire new_system CallScan)"

section \<open>Properties of the cache\<close>

subsection \<open>Strings and sorting\<close>










subsection \<open>The map of the cache\<close>

lemma update_fresh: "k \<notin> fst ` set m \<Longrightarrow> AList.update k v m = m @ [(k, v)]"
  by (induction m) auto

lemma update_split:
  "\<exists>pre post. AList.update k v m = pre @ (k, v) # post \<and> k \<notin> fst ` set pre"
proof (induction m)
  case Nil
  have "AList.update k v [] = [] @ (k, v) # [] \<and> k \<notin> fst ` set []" by simp
  then show ?case by blast
next
  case (Cons p m)
  show ?case
  proof (cases "fst p = k")
    case True
    then have "AList.update k v (p # m) = [] @ (k, v) # m \<and> k \<notin> fst ` set []" by simp
    then show ?thesis by blast
  next
    case False
    from Cons obtain pre post where
      h: "AList.update k v m = pre @ (k, v) # post" "k \<notin> fst ` set pre" by blast
    from False h have "AList.update k v (p # m) = (p # pre) @ (k, v) # post
        \<and> k \<notin> fst ` set (p # pre)" by auto
    then show ?thesis by blast
  qed
qed

lemma update_at_split:
  "k \<notin> fst ` set pre \<Longrightarrow> AList.update k v' (pre @ (k, v) # post) = pre @ (k, v') # post"
  by (induction pre) auto

lemma map_of_at_split:
  "k \<notin> fst ` set pre \<Longrightarrow> map_of (pre @ (k, v) # post) k = Some v"
  by (induction pre) auto

lemma set_update_subset: "set (AList.update k v m) \<subseteq> insert (k, v) (set m)"
  by (induction m) auto

lemma set_delete_subset: "set (AList.delete k m) \<subseteq> set m"
  by (induction m) auto

lemma cache_ok_update:
  assumes "cache_ok c" "k = tool_id v"
  shows "cache_ok (c\<lparr>tools := AList.update k v (tools c)\<rparr>)"
  using assms set_update_subset [of k v "tools c"]
  by (auto simp: cache_ok_def distinct_update)

lemma import_tools_acc:
  "distinct (map fst (acc @ m)) \<Longrightarrow> \<forall>(k, v) \<in> set m. k = tool_id v \<Longrightarrow>
   foldl (\<lambda>m tool. AList.update (tool_id tool) tool m) acc (map snd m) = acc @ m"
proof (induction m arbitrary: acc)
  case Nil
  then show ?case by simp
next
  case (Cons p m)
  obtain k v where p: "p = (k, v)" by (cases p)
  from Cons.prems p have kv: "k = tool_id v" and fresh: "k \<notin> fst ` set acc" by auto
  from Cons.prems p have d: "distinct (map fst ((acc @ [(k, v)]) @ m))" by simp
  from Cons.prems have r: "\<forall>(k, v) \<in> set m. k = tool_id v" by simp
  have "foldl (\<lambda>m tool. AList.update (tool_id tool) tool m) acc (map snd (p # m))
      = foldl (\<lambda>m tool. AList.update (tool_id tool) tool m) (acc @ [(k, v)]) (map snd m)"
    using p kv fresh by (simp add: update_fresh)
  also have "\<dots> = (acc @ [(k, v)]) @ m" by (rule Cons.IH [OF d r])
  finally show ?case using p by simp
qed

lemma import_export_tools:
  "cache_ok c \<Longrightarrow> tools (import_cache c' (export_cache c)) = tools c"
  using import_tools_acc [of "[]" "tools c"]
  by (simp add: import_cache_def export_cache_def cache_ok_def)

lemma import_fold_ok:
  "distinct (map fst acc) \<Longrightarrow> \<forall>(k, v) \<in> set acc. k = tool_id v \<Longrightarrow>
   distinct (map fst (foldl (\<lambda>m tool. AList.update (tool_id tool) tool m) acc ts))
   \<and> (\<forall>(k, v) \<in> set (foldl (\<lambda>m tool. AList.update (tool_id tool) tool m) acc ts). k = tool_id v)"
proof (induction ts arbitrary: acc)
  case Nil
  then show ?case by simp
next
  case (Cons t ts)
  have d: "distinct (map fst (AList.update (tool_id t) t acc))"
    using Cons.prems(1) by (simp add: distinct_update)
  have r: "\<forall>(k, v) \<in> set (AList.update (tool_id t) t acc). k = tool_id v"
    using Cons.prems(2) set_update_subset [of "tool_id t" t acc] by auto
  from Cons.IH [OF d r] show ?case by simp
qed

lemma reachable_cache_ok: "reachable c \<Longrightarrow> cache_ok c"
proof (induction rule: reachable.induct)
  case new
  show ?case by (simp add: cache_ok_def new_ToolCache_def)
next
  case (addTool c tool now)
  then show ?case
    using cache_ok_update [of c "tool_id tool" "tool\<lparr>lastSeen := now\<rparr>"]
    by (simp add: addTool_def)
next
  case (removeTool c i)
  then show ?case
    using set_delete_subset [of i "tools c"]
    by (auto simp: removeTool_def cache_ok_def distinct_delete)
next
  case (clear c)
  then show ?case by (simp add: clear_def cache_ok_def)
next
  case (updateLastScan c now)
  then show ?case by (simp add: updateLastScan_def cache_ok_def)
next
  case (setScanInterval c intervalMs)
  then show ?case by (simp add: setScanInterval_def cache_ok_def)
next
  case (import_cache c d)
  show ?case
    using import_fold_ok [of "[]" "tools_exp d"]
    by (simp add: import_cache_def cache_ok_def)
next
  case (investigateTool c toolId' authorDid now result)
  show ?case
  proof (cases "getTool c toolId'")
    case None
    with investigateTool show ?thesis
      by (simp add: investigateTool_def fetchToolLexicon_def Let_def)
  next
    case (Some existing)
    then have "(toolId', existing) \<in> set (tools c)"
      by (simp add: getTool_def map_of_SomeD)
    with investigateTool.IH have "toolId' = tool_id existing"
      by (auto simp: cache_ok_def)
    then have "cache_ok (c\<lparr>tools := AList.update toolId' (existing\<lparr>lastSeen := now\<rparr>) (tools c)\<rparr>)"
      using cache_ok_update [OF investigateTool.IH, of toolId' "existing\<lparr>lastSeen := now\<rparr>"]
      by simp
    with Some show ?thesis by (simp add: investigateTool_def Let_def)
  qed
qed

lemma searchTools_tools_only:
  "tools c = tools c' \<Longrightarrow> searchTools c q limit = searchTools c' q limit"
  by (cases q) (simp_all add: searchTools_def search_results_def)


text \<open>
  C9: \<open>addTool\<close> twice with the same data changes only \<open>lastSeen\<close>. After the first call
  the cache holds the record under its identifier, stamped with the time of the call; the
  second call replaces that one entry, in place, by the same record stamped with the
  second time, and leaves every other entry, the scan time and the interval as they were.
  The record that \<open>getTool\<close> returns after a call has a \<open>lastSeen\<close> at or after the time
  of the call.
\<close>

theorem addTool_twice_changes_only_lastSeen:
  "\<exists>pre post.
     tools (addTool c tool t1) = pre @ (tool_id tool, tool\<lparr>lastSeen := t1\<rparr>) # post
     \<and> tools (addTool (addTool c tool t1) tool t2)
         = pre @ (tool_id tool, tool\<lparr>lastSeen := t2\<rparr>) # post
     \<and> getTool (addTool c tool t1) (tool_id tool) = Some (tool\<lparr>lastSeen := t1\<rparr>)
     \<and> getTool (addTool (addTool c tool t1) tool t2) (tool_id tool)
         = Some (tool\<lparr>lastSeen := t2\<rparr>)
     \<and> t1 \<le> lastSeen (the (getTool (addTool c tool t1) (tool_id tool)))
     \<and> t2 \<le> lastSeen (the (getTool (addTool (addTool c tool t1) tool t2) (tool_id tool)))
     \<and> lastScan (addTool (addTool c tool t1) tool t2) = lastScan (addTool c tool t1)
     \<and> scanInterval (addTool (addTool c tool t1) tool t2) = scanInterval (addTool c tool t1)"
proof -
  define k where "k = tool_id tool"
  define v1 where "v1 = tool\<lparr>lastSeen := t1\<rparr>"
  define v2 where "v2 = tool\<lparr>lastSeen := t2\<rparr>"
  from update_split [of k v1 "tools c"] obtain pre post where
    s: "AList.update k v1 (tools c) = pre @ (k, v1) # post" and f: "k \<notin> fst ` set pre"
    by blast
  have a1: "tools (addTool c tool t1) = pre @ (k, v1) # post"
    unfolding addTool_def k_def [symmetric] v1_def [symmetric] using s by simp
  have "tools (addTool (addTool c tool t1) tool t2) = AList.update k v2 (tools (addTool c tool t1))"
    unfolding k_def v2_def by (simp add: addTool_def)
  also have "\<dots> = AList.update k v2 (pre @ (k, v1) # post)"
    by (simp only: a1)
  also have "\<dots> = pre @ (k, v2) # post"
    by (rule update_at_split [OF f])
  finally have a2: "tools (addTool (addTool c tool t1) tool t2) = pre @ (k, v2) # post" .
  have g1: "getTool (addTool c tool t1) k = Some v1"
    unfolding getTool_def a1 by (rule map_of_at_split [OF f])
  have g2: "getTool (addTool (addTool c tool t1) tool t2) k = Some v2"
    unfolding getTool_def a2 by (rule map_of_at_split [OF f])
  have l1: "t1 \<le> lastSeen (the (getTool (addTool c tool t1) k))"
    unfolding g1 by (simp add: v1_def)
  have l2: "t2 \<le> lastSeen (the (getTool (addTool (addTool c tool t1) tool t2) k))"
    unfolding g2 by (simp add: v2_def)
  have r1: "lastScan (addTool (addTool c tool t1) tool t2) = lastScan (addTool c tool t1)"
    by (simp add: addTool_def)
  have r2: "scanInterval (addTool (addTool c tool t1) tool t2) = scanInterval (addTool c tool t1)"
    by (simp add: addTool_def)
  from a1 a2 g1 g2 l1 l2 r1 r2 show ?thesis
    unfolding k_def v1_def v2_def by blast
qed

text \<open>
  C8: for every cache that the operations can reach, \<open>export\<close> followed by \<open>import\<close> of the
  snapshot, into any cache, gives a cache with the same entries in the same order and the
  same scan time, so \<open>searchTools\<close> answers every query as before (a query that made it
  throw still does). What \<open>import\<close> leaves in the map and in the scan time depends on the
  snapshot alone, not on the state it replaces.
\<close>

theorem export_import_preserves_search:
  assumes "reachable c"
  shows "searchTools (import_cache c' (export_cache c)) q limit = searchTools c q limit
         \<and> tools (import_cache c' (export_cache c)) = tools c
         \<and> lastScan (import_cache c' (export_cache c)) = lastScan c
         \<and> tools (import_cache c1 d) = tools (import_cache c2 d)
         \<and> lastScan (import_cache c1 d) = lastScan (import_cache c2 d)"
proof -
  have t: "tools (import_cache c' (export_cache c)) = tools c"
    using assms by (simp add: reachable_cache_ok import_export_tools)
  have s: "searchTools (import_cache c' (export_cache c)) q limit = searchTools c q limit"
    using t by (rule searchTools_tools_only)
  have l: "lastScan (import_cache c' (export_cache c)) = lastScan c"
    by (simp add: import_cache_def export_cache_def)
  have i: "tools (import_cache c1 d) = tools (import_cache c2 d)
           \<and> lastScan (import_cache c1 d) = lastScan (import_cache c2 d)"
    by (simp add: import_cache_def)
  from t s l i show ?thesis by simp
qed

theorem export_import_preserves_search_witness:
  "reachable (test_cache 1 2)
   \<and> searchTools (import_cache new_ToolCache (export_cache (test_cache 1 2))) (JString ''giphy'') 10
       = searchTools (test_cache 1 2) (JString ''giphy'') 10
   \<and> tools (import_cache new_ToolCache (export_cache (test_cache 1 2))) = tools (test_cache 1 2)"
proof -
  have r: "reachable (test_cache 1 2)"
    unfolding test_cache_def by (intro reachable.addTool reachable.new)
  from export_import_preserves_search [OF r, of new_ToolCache "JString ''giphy''" 10] r
  show ?thesis by simp
qed

subsection \<open>Ranking\<close>








text \<open>
  C1: on the cache of the unit tests, which holds two tools, the empty query matches both
  tools, since the empty string is contained in every name, and \<open>searchTools\<close> returns both
  with \<open>total = 2\<close>. On any cache an absent query, \<open>undefined\<close> or \<open>null\<close>, and a query
  that is not a string make \<open>query.toLowerCase()\<close> throw a \<open>TypeError\<close>.
\<close>

theorem searchTools_empty_or_absent_query:
  "searchTools (test_cache t1 t2) (JString '''') 10
     = Inr \<lparr>tools_res = [mock_giphy\<lparr>lastSeen := t1\<rparr>, mock_weather\<lparr>lastSeen := t2\<rparr>],
            total = 2, query = JString ''''\<rparr>
   \<and> searchTools c JUndefined limit = Inl (TypeError ''Cannot read properties of undefined'')
   \<and> searchTools c JNull limit = Inl (TypeError ''Cannot read properties of null'')
   \<and> searchTools c (JNumber n) limit = Inl (TypeError ''query.toLowerCase is not a function'')
   \<and> searchTools c (JBoolean b) limit = Inl (TypeError ''query.toLowerCase is not a function'')"
proof -
  have e: "searchTools (test_cache t1 t2) (JString '''') 10
     = Inr \<lparr>tools_res = [mock_giphy\<lparr>lastSeen := t1\<rparr>, mock_weather\<lparr>lastSeen := t2\<rparr>],
            total = 2, query = JString ''''\<rparr>"
    by code_simp
  have a: "searchTools c JUndefined limit = Inl (TypeError ''Cannot read properties of undefined'')
   \<and> searchTools c JNull limit = Inl (TypeError ''Cannot read properties of null'')
   \<and> searchTools c (JNumber n) limit = Inl (TypeError ''query.toLowerCase is not a function'')
   \<and> searchTools c (JBoolean b) limit = Inl (TypeError ''query.toLowerCase is not a function'')"
    by (simp add: searchTools_def)
  from e a show ?thesis by (rule conjI)
qed

section \<open>Properties of the orchestrator\<close>

text \<open>
  C6: the pattern rules classify \<open>install giphy\<close> as an install intent with the confidence
  0.9, the tool identifier \<open>comlink.giphy\<close>, which is the prefix \<open>comlink.\<close> followed by
  \<open>giphy\<close>, and the parameter \<open>toolName = giphy\<close>, whatever is installed or cached.
\<close>

theorem fallback_install_giphy:
  "fallbackProcessMessage orch ''install giphy''
     = \<lparr>type = Install, confidence = dbl (9 / 10), toolId = Some (''comlink.'' @ ''giphy''),
        parameters = [(''toolName'', ''giphy'')], originalText = ''install giphy''\<rparr>"
  by code_simp


text \<open>
  C7: \<open>executeTool\<close> on an intent whose tool identifier is not \<open>comlink.giphy\<close> and is
  absent or not in the installed set returns, as a value, the result with
  \<open>success = false\<close> whose content tells the user to install the tool first (the name in
  it is the identifier without its first \<open>comlink.\<close>). On \<open>comlink.giphy\<close> it returns the
  successful result of the built-in search, whatever is installed.
\<close>

theorem executeTool_not_installed:
  "(toolId intent \<noteq> Some ''comlink.giphy''
      \<and> (\<forall>i. toolId intent = Some i \<longrightarrow> i \<notin> set (installedTools orch))
    \<longrightarrow> executeTool stringify orch intent
          = \<lparr>success = False,
             content = satellite @ '' Tool not installed. Try '' @ [CHR 0x22] @ ''install ''
                       @ (case toolId intent of
                            None \<Rightarrow> ''undefined''
                          | Some i \<Rightarrow> replace_str_empty i ''comlink.'')
                       @ [CHR 0x22] @ '' first.'',
             media = None, error = None\<rparr>)
   \<and> (toolId intent = Some ''comlink.giphy''
    \<longrightarrow> executeTool stringify orch intent = executeGiphySearch intent
        \<and> success (executeTool stringify orch intent))"
proof (intro conjI impI)
  assume h: "toolId intent \<noteq> Some ''comlink.giphy''
      \<and> (\<forall>i. toolId intent = Some i \<longrightarrow> i \<notin> set (installedTools orch))"
  show "executeTool stringify orch intent
          = \<lparr>success = False,
             content = satellite @ '' Tool not installed. Try '' @ [CHR 0x22] @ ''install ''
                       @ (case toolId intent of
                            None \<Rightarrow> ''undefined''
                          | Some i \<Rightarrow> replace_str_empty i ''comlink.'')
                       @ [CHR 0x22] @ '' first.'',
             media = None, error = None\<rparr>"
  proof (cases "toolId intent")
    case None
    then show ?thesis by (simp add: executeTool_def)
  next
    case (Some i)
    with h have "i \<noteq> ''comlink.giphy''" "i \<notin> set (installedTools orch)" by auto
    with Some show ?thesis by (simp add: executeTool_def)
  qed
next
  assume g: "toolId intent = Some ''comlink.giphy''"
  then show "executeTool stringify orch intent = executeGiphySearch intent"
    by (simp add: executeTool_def)
  from g show "success (executeTool stringify orch intent)"
    by (simp add: executeTool_def executeGiphySearch_def Let_def)
qed

theorem executeTool_not_installed_witness:
  "toolId weather_intent = Some ''comlink.weather''
   \<and> ''comlink.weather'' \<noteq> ''comlink.giphy''
   \<and> ''comlink.weather'' \<notin> set (installedTools fresh_orchestrator)
   \<and> executeTool (\<lambda>p. ''{}'') fresh_orchestrator weather_intent
       = \<lparr>success = False,
          content = satellite @ '' Tool not installed. Try '' @ [CHR 0x22] @ ''install weather''
                    @ [CHR 0x22] @ '' first.'',
          media = None, error = None\<rparr>
   \<and> toolId (weather_intent\<lparr>toolId := Some ''comlink.giphy''\<rparr>) = Some ''comlink.giphy''
   \<and> success (executeTool (\<lambda>p. ''{}'') fresh_orchestrator
                 (weather_intent\<lparr>toolId := Some ''comlink.giphy''\<rparr>))"
proof -
  have h1: "toolId (weather_intent) \<noteq> Some ''comlink.giphy''"
    by (simp add: weather_intent_def)
  have h2: "\<forall>i. toolId weather_intent = Some i \<longrightarrow> i \<notin> set (installedTools fresh_orchestrator)"
    by (simp add: weather_intent_def fresh_orchestrator_def)
  have r: "replace_str_empty ''comlink.weather'' ''comlink.'' = ''weather''"
    by simp
  have w: "toolId weather_intent = Some ''comlink.weather''"
    by (simp add: weather_intent_def)
  have g: "toolId (weather_intent\<lparr>toolId := Some ''comlink.giphy''\<rparr>) = Some ''comlink.giphy''"
    by simp
  from executeTool_not_installed [of weather_intent fresh_orchestrator "\<lambda>p. ''{}''"] h1 h2
  have "executeTool (\<lambda>p. ''{}'') fresh_orchestrator weather_intent
       = \<lparr>success = False,
          content = satellite @ '' Tool not installed. Try '' @ [CHR 0x22] @ ''install ''
                    @ (case toolId weather_intent of
                            None \<Rightarrow> ''undefined''
                          | Some i \<Rightarrow> replace_str_empty i ''comlink.'')
                    @ [CHR 0x22] @ '' first.'',
          media = None, error = None\<rparr>"
    by blast
  then have a: "executeTool (\<lambda>p. ''{}'') fresh_orchestrator weather_intent
       = \<lparr>success = False,
          content = satellite @ '' Tool not installed. Try '' @ [CHR 0x22] @ ''install weather''
                    @ [CHR 0x22] @ '' first.'',
          media = None, error = None\<rparr>"
    unfolding w by (simp only: option.case r append.simps)
  from executeTool_not_installed [of "weather_intent\<lparr>toolId := Some ''comlink.giphy''\<rparr>"
      fresh_orchestrator "\<lambda>p. ''{}''"] g
  have b: "success (executeTool (\<lambda>p. ''{}'') fresh_orchestrator
                 (weather_intent\<lparr>toolId := Some ''comlink.giphy''\<rparr>))"
    by blast
  have i: "''comlink.weather'' \<notin> set (installedTools fresh_orchestrator)"
    by (simp add: fresh_orchestrator_def)
  from w i a g b show ?thesis by simp
qed

subsection \<open>The confidence of a tool match\<close>



lemma best_tool_apply:
  "best_tool message (b, c) tool =
     (if c < calculateToolMatchConfidence message tool
      then (Some tool, calculateToolMatchConfidence message tool) else (b, c))"
  by (simp add: best_tool_def)



lemma foldl_best_tool_keep:
  "\<forall>t \<in> set ts. calculateToolMatchConfidence message t \<le> snd b \<Longrightarrow>
   foldl (best_tool message) b ts = b"
proof (induction ts arbitrary: b)
  case Nil
  show ?case by simp
next
  case (Cons t ts)
  obtain b0 c0 where b: "b = (b0, c0)" by (cases b)
  from Cons.prems b have "best_tool message b t = b" by (simp add: best_tool_apply)
  with Cons show ?case by simp
qed







text \<open>
  A remark on the threshold: in doubles the sum of 0.2 and 0.1 is above the double 0.3, so
  a tool that matches a message by one capability and one tag is accepted, with the
  confidence 0.30000000000000004, while six description words, which sum to the double
  0.3, are not enough.
\<close>

lemma threshold_in_doubles:
  "dbl (3 / 10) < foldl js_add 0 [dbl (2 / 10), dbl (1 / 10)]
   \<and> foldl js_add 0 (replicate 6 (dbl (5 / 100))) = dbl (3 / 10)"
  by code_simp

section \<open>Properties of the scanner\<close>

subsection \<open>The patterns on an install phrase\<close>

























subsection \<open>The single flight of the scan\<close>

lemma scan_run_lowers_flag: "scanning (fst (scan_run s c response authorFeed now)) = False"
  by (simp add: scan_run_def Let_def split_def)

lemma fire_CallScan:
  "fire \<sigma> CallScan =
     (if scanning (scanner \<sigma>) then (Thrown (Error ''Scan already in progress''), \<sigma>)
      else (Started, \<sigma>\<lparr>scanner := (scanner \<sigma>)\<lparr>scanning := True\<rparr>, pending := pending \<sigma> + 1\<rparr>))"
  by (simp add: fire_def scan_begin_def)

lemma fire_FeedAnswers:
  "fire \<sigma> (FeedAnswers response authorFeed now) =
     (if pending \<sigma> = 0 then (Done, \<sigma>)
      else (Returned (snd (snd (scan_run (scanner \<sigma>) (cache \<sigma>) response authorFeed now))),
            \<lparr>scanner = fst (scan_run (scanner \<sigma>) (cache \<sigma>) response authorFeed now),
             cache = fst (snd (scan_run (scanner \<sigma>) (cache \<sigma>) response authorFeed now)),
             pending = pending \<sigma> - 1\<rparr>))"
  by (simp add: fire_def split_def Let_def)

lemma fire_CacheOp: "fire \<sigma> (CacheOp f) = (Done, \<sigma>\<lparr>cache := f (cache \<sigma>)\<rparr>)"
  by (simp add: fire_def)

lemma single_flight_fire: "single_flight \<sigma> \<Longrightarrow> single_flight (snd (fire \<sigma> ev))"
proof (cases ev)
  case CallScan
  assume "single_flight \<sigma>"
  with CallScan show ?thesis by (simp add: fire_CallScan single_flight_def)
next
  case (FeedAnswers response authorFeed now)
  assume "single_flight \<sigma>"
  with FeedAnswers show ?thesis
    by (simp add: fire_FeedAnswers single_flight_def scan_run_lowers_flag)
next
  case (CacheOp f)
  assume "single_flight \<sigma>"
  with CacheOp show ?thesis by (simp add: fire_CacheOp single_flight_def)
qed

lemma reachable_single_flight: "reachable_system \<sigma> \<Longrightarrow> single_flight \<sigma>"
proof (induction rule: reachable_system.induct)
  case start
  show ?case by (simp add: single_flight_def new_system_def)
next
  case (step \<sigma> ev)
  then show ?case by (simp add: single_flight_fire)
qed

text \<open>
  C4: in every state that the scanner and its callers can reach, at most one call of
  \<open>startBackgroundScan\<close> is in progress, and \<open>isScanning\<close> tells whether one is. While one
  is in progress, a further call throws the error \<open>Scan already in progress\<close> at once and
  leaves the scanner and the cache as they are. When the feed has answered, with posts or
  with an error, the scan in progress returns its result, none is in progress any more,
  and the next call is accepted. A call while none is in progress is accepted, and
  accepting it writes nothing to the cache.
\<close>

theorem scan_single_flight:
  "reachable_system \<sigma>
   \<longrightarrow> pending \<sigma> \<le> 1
       \<and> (isScanning (scanner \<sigma>) \<longleftrightarrow> pending \<sigma> = 1)
       \<and> (pending \<sigma> = 1
           \<longrightarrow> fire \<sigma> CallScan = (Thrown (Error ''Scan already in progress''), \<sigma>)
               \<and> (\<exists>r. fst (fire \<sigma> (FeedAnswers response authorFeed now)) = Returned r)
               \<and> pending (snd (fire \<sigma> (FeedAnswers response authorFeed now))) = 0
               \<and> fst (fire (snd (fire \<sigma> (FeedAnswers response authorFeed now))) CallScan)
                   = Started)
       \<and> (pending \<sigma> = 0
           \<longrightarrow> fst (fire \<sigma> CallScan) = Started
               \<and> pending (snd (fire \<sigma> CallScan)) = 1
               \<and> cache (snd (fire \<sigma> CallScan)) = cache \<sigma>)"
proof
  assume r: "reachable_system \<sigma>"
  then have i: "single_flight \<sigma>" by (rule reachable_single_flight)
  have a: "pending \<sigma> \<le> 1"
    using i by (simp add: single_flight_def split: if_splits)
  have b: "isScanning (scanner \<sigma>) \<longleftrightarrow> pending \<sigma> = 1"
    using i by (simp add: single_flight_def isScanning_def split: if_splits)
  have c: "fire \<sigma> CallScan = (Thrown (Error ''Scan already in progress''), \<sigma>)
           \<and> (\<exists>r. fst (fire \<sigma> (FeedAnswers response authorFeed now)) = Returned r)
           \<and> pending (snd (fire \<sigma> (FeedAnswers response authorFeed now))) = 0
           \<and> fst (fire (snd (fire \<sigma> (FeedAnswers response authorFeed now))) CallScan) = Started"
    if p: "pending \<sigma> = 1"
  proof -
    from p b have s: "scanning (scanner \<sigma>)" by (simp add: isScanning_def)
    then have c1: "fire \<sigma> CallScan = (Thrown (Error ''Scan already in progress''), \<sigma>)"
      by (simp add: fire_CallScan)
    from p have c2: "\<exists>r. fst (fire \<sigma> (FeedAnswers response authorFeed now)) = Returned r"
      by (simp add: fire_FeedAnswers)
    from p have c3: "pending (snd (fire \<sigma> (FeedAnswers response authorFeed now))) = 0"
      by (simp add: fire_FeedAnswers)
    from p have "\<not> scanning (scanner (snd (fire \<sigma> (FeedAnswers response authorFeed now))))"
      by (simp add: fire_FeedAnswers scan_run_lowers_flag)
    then have c4: "fst (fire (snd (fire \<sigma> (FeedAnswers response authorFeed now))) CallScan)
                     = Started"
      by (simp add: fire_CallScan)
    from c1 c2 c3 c4 show ?thesis by (intro conjI)
  qed
  have d: "fst (fire \<sigma> CallScan) = Started
           \<and> pending (snd (fire \<sigma> CallScan)) = 1
           \<and> cache (snd (fire \<sigma> CallScan)) = cache \<sigma>"
    if p: "pending \<sigma> = 0"
  proof -
    from p b have "\<not> scanning (scanner \<sigma>)" by (simp add: isScanning_def)
    with p show ?thesis by (simp add: fire_CallScan)
  qed
  from a b c d show "pending \<sigma> \<le> 1
       \<and> (isScanning (scanner \<sigma>) \<longleftrightarrow> pending \<sigma> = 1)
       \<and> (pending \<sigma> = 1
           \<longrightarrow> fire \<sigma> CallScan = (Thrown (Error ''Scan already in progress''), \<sigma>)
               \<and> (\<exists>r. fst (fire \<sigma> (FeedAnswers response authorFeed now)) = Returned r)
               \<and> pending (snd (fire \<sigma> (FeedAnswers response authorFeed now))) = 0
               \<and> fst (fire (snd (fire \<sigma> (FeedAnswers response authorFeed now))) CallScan)
                   = Started)
       \<and> (pending \<sigma> = 0
           \<longrightarrow> fst (fire \<sigma> CallScan) = Started
               \<and> pending (snd (fire \<sigma> CallScan)) = 1
               \<and> cache (snd (fire \<sigma> CallScan)) = cache \<sigma>)"
    by blast
qed

theorem scan_single_flight_witness:
  "reachable_system scanning_system
   \<and> pending scanning_system = 1
   \<and> fire scanning_system CallScan = (Thrown (Error ''Scan already in progress''), scanning_system)
   \<and> pending (snd (fire scanning_system (FeedAnswers (Rejected ''Error: offline'')
                                            (\<lambda>did. Rejected ''Error: offline'') 5))) = 0
   \<and> fst (fire (snd (fire scanning_system (FeedAnswers (Rejected ''Error: offline'')
                                            (\<lambda>did. Rejected ''Error: offline'') 5))) CallScan)
       = Started
   \<and> reachable_system new_system
   \<and> pending new_system = 0
   \<and> fst (fire new_system CallScan) = Started
   \<and> cache (snd (fire new_system CallScan)) = cache new_system"
proof -
  have r0: "reachable_system new_system" by (rule reachable_system.start)
  have r1: "reachable_system scanning_system"
    unfolding scanning_system_def by (rule reachable_system.step [OF r0])
  have p0: "pending new_system = 0" by (simp add: new_system_def)
  have p1: "pending scanning_system = 1"
    by (simp add: scanning_system_def fire_CallScan new_system_def)
  from scan_single_flight [of scanning_system "Rejected ''Error: offline''"
      "\<lambda>did. Rejected ''Error: offline''" 5] r1 p1
  have a: "fire scanning_system CallScan
             = (Thrown (Error ''Scan already in progress''), scanning_system)
   \<and> pending (snd (fire scanning_system (FeedAnswers (Rejected ''Error: offline'')
                                            (\<lambda>did. Rejected ''Error: offline'') 5))) = 0
   \<and> fst (fire (snd (fire scanning_system (FeedAnswers (Rejected ''Error: offline'')
                                            (\<lambda>did. Rejected ''Error: offline'') 5))) CallScan)
       = Started"
    by blast
  from scan_single_flight [of new_system "Rejected ''Error: offline''"
      "\<lambda>did. Rejected ''Error: offline''" 5] r0 p0
  have b: "fst (fire new_system CallScan) = Started
   \<and> cache (snd (fire new_system CallScan)) = cache new_system"
    by blast
  from r1 p1 a r0 p0 b show ?thesis by blast
qed

end
